theory Spec2Isabelle
  imports Main "HOL-Library.Word"
begin

section \<open>Constants of main.go\<close>

definition serviceName :: string where
  "serviceName = ''hello-app''"

definition serviceVersion :: string where
  "serviceVersion = ''1.0''"

definition metricPrefix :: string where
  "metricPrefix = ''custom.metric.''"

definition numberOfExecName :: string where
  "numberOfExecName = metricPrefix @ ''number.of.exec''"

definition numberOfExecDesc :: string where
  "numberOfExecDesc = ''Count the number of executions.''"

definition heapMemoryName :: string where
  "heapMemoryName = metricPrefix @ ''heap.memory''"

definition heapMemoryDesc :: string where
  "heapMemoryDesc = ''Reports heap memory utilization.''"

section \<open>The Response struct and its JSON encoding\<close>

record Response =
  Message :: string

text \<open>\<^verbatim>\<open>func (r Response) isValid() bool { return true }\<close>\<close>

definition isValid :: "Response \<Rightarrow> bool" where
  "isValid r = True"

text \<open>
  \<^verbatim>\<open>json.Marshal\<close> on a struct with one string field tagged \<^verbatim>\<open>json:"Message"\<close>. The
  string encoder of encoding/json (HTML escaping on, the default of Marshal) copies a
  byte below 0x80 unless it is a quote, a backslash, a control character or one of
  \<^verbatim>\<open>< > &\<close>; newline, carriage return and tab get their two-character escapes and the
  rest is written as \<^verbatim>\<open>\u00XX\<close>. Bytes from 0x80 on are copied (the encoder does so for
  well-formed UTF-8 other than U+2028 and U+2029; the handler only ever encodes the
  ASCII constant "Hello World"). Marshal of this struct never returns an error.
\<close>

definition hex :: string where
  "hex = ''0123456789abcdef''"

definition json_escape :: "char \<Rightarrow> string" where
  "json_escape c =
     (let b = (of_char c :: nat) in
      if c = CHR 0x22 \<or> c = CHR 0x5C then [CHR 0x5C, c]
      else if c = CHR 0x0A then [CHR 0x5C, CHR ''n'']
      else if c = CHR 0x0D then [CHR 0x5C, CHR ''r'']
      else if c = CHR 0x09 then [CHR 0x5C, CHR ''t'']
      else if b < 0x20 \<or> c = CHR ''<'' \<or> c = CHR ''>'' \<or> c = CHR ''&''
        then [CHR 0x5C, CHR ''u'', CHR ''0'', CHR ''0'', hex ! (b div 16), hex ! (b mod 16)]
      else [c])"

definition json_string :: "string \<Rightarrow> string" where
  "json_string s = [CHR 0x22] @ concat (map json_escape s) @ [CHR 0x22]"

definition json_Marshal :: "Response \<Rightarrow> string + string" where
  "json_Marshal r =
     Inr (''{'' @ json_string ''Message'' @ '':'' @ json_string (Message r) @ ''}'')"

section \<open>The response writer of net/http\<close>

text \<open>
  \<^verbatim>\<open>http.Header\<close> is a map from a key to the list of its values; \<^verbatim>\<open>Add\<close> appends a
  value. (Add canonicalises the key; the one key the program uses, Content-Type, is
  canonical already, so keys are taken as given.)
\<close>

type_synonym Header = "string \<rightharpoonup> string list"

definition Header_Add :: "string \<Rightarrow> string \<Rightarrow> Header \<Rightarrow> Header" where
  "Header_Add k v h = h(k \<mapsto> (case h k of None \<Rightarrow> [] | Some vs \<Rightarrow> vs) @ [v])"

text \<open>
  The writer the server hands to a handler. \<open>handlerHeader\<close> is the map \<^verbatim>\<open>Header()\<close>
  returns, which the handler may change at any time. \<^verbatim>\<open>WriteHeader\<close> fixes the status
  and the headers of the response as the map stands at that moment (\<open>sentHeader\<close>);
  the interface documents that changing the map after WriteHeader or Write has no
  effect on a response whose status is not 1xx. A second WriteHeader is ignored.
  \<^verbatim>\<open>Write\<close> calls WriteHeader(200) first when no header was written, and when the
  headers being sent have no Content-Type it adds the one that
  \<^verbatim>\<open>http.DetectContentType\<close> gives for the written data. DetectContentType is not part
  of the repository and is a parameter, \<open>sniff\<close>.
\<close>

record ResponseWriter =
  handlerHeader :: Header
  wroteHeader :: bool
  status :: nat
  sentHeader :: Header
  body :: string

definition newResponseWriter :: ResponseWriter where
  "newResponseWriter =
     \<lparr>handlerHeader = Map.empty, wroteHeader = False, status = 0,
      sentHeader = Map.empty, body = []\<rparr>"

definition StatusOK :: nat where
  "StatusOK = 200"

definition rw_WriteHeader :: "nat \<Rightarrow> ResponseWriter \<Rightarrow> ResponseWriter" where
  "rw_WriteHeader code rw =
     (if wroteHeader rw then rw
      else rw\<lparr>wroteHeader := True, status := code, sentHeader := handlerHeader rw\<rparr>)"

definition rw_Header_Add :: "string \<Rightarrow> string \<Rightarrow> ResponseWriter \<Rightarrow> ResponseWriter" where
  "rw_Header_Add k v rw = rw\<lparr>handlerHeader := Header_Add k v (handlerHeader rw)\<rparr>"

definition rw_Write :: "(string \<Rightarrow> string) \<Rightarrow> string \<Rightarrow> ResponseWriter \<Rightarrow> ResponseWriter" where
  "rw_Write sniff bytes rw =
     (let rw1 = (if wroteHeader rw then rw else rw_WriteHeader StatusOK rw);
          rw2 = (if sentHeader rw1 ''Content-Type'' = None \<and> bytes \<noteq> []
                 then rw1\<lparr>sentHeader := (sentHeader rw1)(''Content-Type'' \<mapsto> [sniff bytes])\<rparr>
                 else rw1)
      in rw2\<lparr>body := body rw2 @ bytes\<rparr>)"

section \<open>Tracer, counter, log: the state a request works on\<close>

text \<open>
  A span has a name, the span that was current in the context it was started from
  (its parent), a start time and, once ended, an end time. A span is identified by its
  position in the list of spans of the tracer provider. A \<^verbatim>\<open>context.Context\<close> is
  modelled by the one thing the handler uses it for: the span it carries, if any.
\<close>

record span =
  span_name :: string
  span_parent :: "nat option"
  span_start :: int
  span_end :: "int option"

type_synonym Context = "nat option"

datatype event =
    SpanStarted nat string
  | SpanEnded nat
  | WroteHeader nat
  | HeaderAdded string string
  | WroteBody string
  | LogPrinted string
  | CounterAdded int

text \<open>
  The state: the writer of the request being served, the spans of the tracer provider,
  the number of clock readings made so far, the sum accumulated by the bound counter
  \<open>numberOfExecutions\<close>, the lines printed by \<^verbatim>\<open>log\<close>, and the calls made so far in
  order. The wall clock is a parameter \<open>clock\<close>: the time of the n-th reading.
\<close>

record world =
  writer :: ResponseWriter
  spans :: "span list"
  clock_reads :: nat
  numberOfExecutions :: int
  log_lines :: "string list"
  events :: "event list"

definition emit :: "event \<Rightarrow> world \<Rightarrow> world" where
  "emit e w = w\<lparr>events := events w @ [e]\<rparr>"

definition tracer_Start :: "(nat \<Rightarrow> int) \<Rightarrow> Context \<Rightarrow> string \<Rightarrow> world \<Rightarrow> (Context \<times> nat) \<times> world" where
  "tracer_Start clock ctx name w =
     (let sid = length (spans w);
          sp = \<lparr>span_name = name, span_parent = ctx,
                span_start = clock (clock_reads w), span_end = None\<rparr>
      in ((Some sid, sid),
          emit (SpanStarted sid name)
            (w\<lparr>spans := spans w @ [sp], clock_reads := Suc (clock_reads w)\<rparr>)))"

text \<open>Ending a span that has ended already does nothing.\<close>

definition span_End :: "(nat \<Rightarrow> int) \<Rightarrow> nat \<Rightarrow> world \<Rightarrow> world" where
  "span_End clock sid w =
     (if sid < length (spans w) \<and> span_end (spans w ! sid) = None
      then emit (SpanEnded sid)
             (w\<lparr>spans := (spans w)[sid := (spans w ! sid)\<lparr>span_end := Some (clock (clock_reads w))\<rparr>],
                clock_reads := Suc (clock_reads w)\<rparr>)
      else w)"

text \<open>
  \<^verbatim>\<open>Add\<close> on the bound Int64 counter: the instrument is monotonic, a negative
  increment is reported to the error handler and dropped.
\<close>

definition counter_Add :: "int \<Rightarrow> world \<Rightarrow> world" where
  "counter_Add delta w =
     (if delta < 0 then w
      else emit (CounterAdded delta) (w\<lparr>numberOfExecutions := numberOfExecutions w + delta\<rparr>))"

definition log_Print :: "string \<Rightarrow> world \<Rightarrow> world" where
  "log_Print msg w = emit (LogPrinted msg) (w\<lparr>log_lines := log_lines w @ [msg]\<rparr>)"

definition writer_WriteHeader :: "nat \<Rightarrow> world \<Rightarrow> world" where
  "writer_WriteHeader code w = emit (WroteHeader code) (w\<lparr>writer := rw_WriteHeader code (writer w)\<rparr>)"

definition writer_Header_Add :: "string \<Rightarrow> string \<Rightarrow> world \<Rightarrow> world" where
  "writer_Header_Add k v w = emit (HeaderAdded k v) (w\<lparr>writer := rw_Header_Add k v (writer w)\<rparr>)"

definition writer_Write :: "(string \<Rightarrow> string) \<Rightarrow> string \<Rightarrow> world \<Rightarrow> world" where
  "writer_Write sniff bytes w = emit (WroteBody bytes) (w\<lparr>writer := rw_Write sniff bytes (writer w)\<rparr>)"

section \<open>The handler\<close>

text \<open>
  \<^verbatim>\<open>buildResponse\<close>: WriteHeader(200), then Header().Add("Content-Type",
  "application/json"), then the JSON of \<^verbatim>\<open>Response{"Hello World"}\<close> is written; the error
  of Marshal is discarded (\<^verbatim>\<open>bytes, _ := json.Marshal(response)\<close>), which leaves no bytes
  to write.
\<close>

definition buildResponse :: "(string \<Rightarrow> string) \<Rightarrow> world \<Rightarrow> Response \<times> world" where
  "buildResponse sniff w =
     (let w1 = writer_WriteHeader StatusOK w;
          w2 = writer_Header_Add ''Content-Type'' ''application/json'' w1;
          response = \<lparr>Message = ''Hello World''\<rparr>;
          bytes = (case json_Marshal response of Inl err \<Rightarrow> [] | Inr bs \<Rightarrow> bs);
          w3 = writer_Write sniff bytes w2
      in (response, w3))"

text \<open>
  \<^verbatim>\<open>hello\<close>. The first Start assigns the context it returns to \<^verbatim>\<open>ctx\<close>; the second
  Start and the Add are given that context.
\<close>

definition hello :: "(string \<Rightarrow> string) \<Rightarrow> (nat \<Rightarrow> int) \<Rightarrow> Context \<Rightarrow> world \<Rightarrow> world" where
  "hello sniff clock request_ctx w =
     (let ctx = request_ctx;
          ((ctx, buildResp), w1) = tracer_Start clock ctx ''buildResponse'' w;
          (response, w2) = buildResponse sniff w1;
          w3 = span_End clock buildResp w2;
          ((_, mySpan), w4) = tracer_Start clock ctx ''mySpan'' w3;
          w5 = (if isValid response then log_Print ''The response is valid'' w4 else w4);
          w6 = span_End clock mySpan w5;
          w7 = counter_Add 1 w6
      in w7)"

text \<open>
  The route as the router serves it: \<^verbatim>\<open>router.Use(otelmux.Middleware(serviceName))\<close>
  wraps the handler. The server gives each request a fresh writer. The middleware
  starts a span named after the route from the context of the request, calls the
  handler with the context that carries this span, and ends the span when the handler
  has returned.
\<close>

definition route :: string where
  "route = ''/hello''"

definition serve_hello :: "(string \<Rightarrow> string) \<Rightarrow> (nat \<Rightarrow> int) \<Rightarrow> world \<Rightarrow> world" where
  "serve_hello sniff clock w =
     (let w0 = w\<lparr>writer := newResponseWriter\<rparr>;
          ((ctx, root), w1) = tracer_Start clock None route w0;
          w2 = hello sniff clock ctx w1
      in span_End clock root w2)"

primrec serve_requests :: "(string \<Rightarrow> string) \<Rightarrow> (nat \<Rightarrow> int) \<Rightarrow> nat \<Rightarrow> world \<Rightarrow> world" where
  "serve_requests sniff clock 0 w = w"
| "serve_requests sniff clock (Suc n) w = serve_requests sniff clock n (serve_hello sniff clock w)"

text \<open>The increments the counter received, read off the calls.\<close>

primrec counter_deltas :: "event list \<Rightarrow> int list" where
  "counter_deltas [] = []"
| "counter_deltas (e # es) =
     (case e of CounterAdded d \<Rightarrow> d # counter_deltas es | _ \<Rightarrow> counter_deltas es)"

definition initial_world :: world where
  "initial_world =
     \<lparr>writer = newResponseWriter, spans = [], clock_reads = 0, numberOfExecutions = 0,
      log_lines = [], events = []\<rparr>"

section \<open>The heap-memory observer\<close>

text \<open>
  \<^verbatim>\<open>runtime.MemStats\<close>, reduced to the field the callback reads: \<^verbatim>\<open>HeapAlloc uint64\<close>,
  the bytes of allocated heap objects. The callback observes \<^verbatim>\<open>int64(mem.HeapAlloc)\<close>:
  the conversion keeps the 64 bits and reads them as two's complement, which is \<open>sint\<close>.
  The observation carries one attribute, the name of the instrument with its
  description.
\<close>

record MemStats =
  HeapAlloc :: "64 word"

record observation =
  obs_value :: int
  obs_attributes :: "(string \<times> string) list"

definition heapMemoryCallback :: "MemStats \<Rightarrow> observation" where
  "heapMemoryCallback mem =
     \<lparr>obs_value = sint (HeapAlloc mem), obs_attributes = [(heapMemoryName, heapMemoryDesc)]\<rparr>"

section \<open>Startup: main\<close>

text \<open>
  What a call into a library does, seen from main: it returns without an error, it
  returns an error, or it does not return (the exporters dial with \<^verbatim>\<open>grpc.WithBlock()\<close>
  under a context with no deadline). \<^verbatim>\<open>http.ListenAndServe\<close> either serves for ever or
  returns, and when it returns it returns an error.
\<close>

datatype outcome = Ok | Err string | Hangs

datatype serve_outcome = Serves_forever | Serve_returns string

type_synonym attributes = "(string \<times> string) list"

record exporter_options =
  insecure :: bool
  endpoint :: string
  dial_block :: bool

datatype sampler = AlwaysSample | NeverSample

record tracer_provider_config =
  tp_sampler :: sampler
  tp_resource :: attributes
  tp_batch_exporter :: exporter_options

record controller_config =
  ctl_resource :: attributes
  ctl_exporter :: exporter_options
  ctl_collect_period :: int

text \<open>The instrument kinds of the metric API the program is written against.\<close>

datatype instrument_kind =
    HistogramInstrumentKind
  | GaugeObserverInstrumentKind
  | CounterInstrumentKind
  | UpDownCounterInstrumentKind
  | CounterObserverInstrumentKind
  | UpDownCounterObserverInstrumentKind

record instrument =
  inst_name :: string
  inst_kind :: instrument_kind
  inst_description :: string

text \<open>
  Everything main depends on that is not in the repository: the environment of the
  process and the results of the library calls, each as a function of what main
  passes.
\<close>

record library =
  environ :: "string \<rightharpoonup> string"
  resource_New :: "attributes \<Rightarrow> outcome"
  otlptracegrpc_New :: "exporter_options \<Rightarrow> outcome"
  otlpmetricgrpc_New :: "exporter_options \<Rightarrow> outcome"
  pusher_Start :: "controller_config \<Rightarrow> outcome"
  meter_new :: "instrument \<Rightarrow> outcome"
  http_ListenAndServe :: "string \<Rightarrow> serve_outcome"

text \<open>\<^verbatim>\<open>os.Getenv\<close>: the value of the variable, the empty string when it is not set.\<close>

definition os_Getenv :: "library \<Rightarrow> string \<Rightarrow> string" where
  "os_Getenv lib k = (case environ lib k of None \<Rightarrow> [] | Some v \<Rightarrow> v)"

text \<open>The attribute keys of semconv v1.4.0 and \<^verbatim>\<open>time.Second\<close> in nanoseconds.\<close>

definition ServiceNameKey :: string where
  "ServiceNameKey = ''service.name''"

definition ServiceVersionKey :: string where
  "ServiceVersionKey = ''service.version''"

definition time_Second :: int where
  "time_Second = 1000000000"

text \<open>What main does, in order, each call into a library with its result.\<close>

datatype action =
    Getenv string
  | ResourceNew attributes outcome
  | LogFatal string
  | TraceExporterNew exporter_options outcome
  | SetTracerProvider tracer_provider_config
  | SetTextMapPropagator "string list"
  | MetricExporterNew exporter_options outcome
  | ControllerStart controller_config outcome
  | ControllerStop
  | SetMeterProvider
  | NewInstrument instrument outcome
  | CounterBind attributes
  | Panic string
  | RouterUse string
  | HandleFunc string
  | ListenAndServe string serve_outcome

text \<open>
  A run of the process: its actions, and its exit code if it exits (\<open>None\<close>: it never
  does). \<^verbatim>\<open>log.Fatalf\<close> prints the message and calls \<^verbatim>\<open>os.Exit(1)\<close>, which runs no deferred
  function. A function body returns, panics or never finishes.
\<close>

record process =
  actions :: "action list"
  exit_code :: "int option"

datatype completion = Returns | Panics string | Never

definition log_Fatalf :: "action list \<Rightarrow> string \<Rightarrow> string \<Rightarrow> process" where
  "log_Fatalf acts msg err =
     \<lparr>actions = acts @ [LogFatal (msg @ '': '' @ err)], exit_code = Some 1\<rparr>"

definition blocked :: "action list \<Rightarrow> process" where
  "blocked acts = \<lparr>actions = acts, exit_code = None\<rparr>"

definition resource_attributes :: attributes where
  "resource_attributes = [(ServiceNameKey, serviceName), (ServiceVersionKey, serviceVersion)]"

definition exporter_opts :: "string \<Rightarrow> exporter_options" where
  "exporter_opts ep = \<lparr>insecure = True, endpoint = ep, dial_block = True\<rparr>"

definition numberOfExecInstrument :: instrument where
  "numberOfExecInstrument =
     \<lparr>inst_name = numberOfExecName, inst_kind = CounterInstrumentKind,
      inst_description = numberOfExecDesc\<rparr>"

definition heapMemoryInstrument :: instrument where
  "heapMemoryInstrument =
     \<lparr>inst_name = heapMemoryName, inst_kind = CounterObserverInstrumentKind,
      inst_description = heapMemoryDesc\<rparr>"

definition tracer_provider :: "string \<Rightarrow> tracer_provider_config" where
  "tracer_provider ep =
     \<lparr>tp_sampler = AlwaysSample, tp_resource = resource_attributes,
      tp_batch_exporter = exporter_opts ep\<rparr>"

definition pusher :: "string \<Rightarrow> controller_config" where
  "pusher ep =
     \<lparr>ctl_resource = resource_attributes, ctl_exporter = exporter_opts ep,
      ctl_collect_period = 5 * time_Second\<rparr>"

text \<open>
  The part of main after \<^verbatim>\<open>defer func() { _ = pusher.Stop(ctx) }()\<close>. \<^verbatim>\<open>metric.Must\<close>
  panics when an instrument cannot be created. The result of ListenAndServe is
  dropped, and main returns when it returns.
\<close>

definition main_after_defer :: "library \<Rightarrow> action list \<times> completion" where
  "main_after_defer lib =
     (let a0 = [SetMeterProvider];
          r1 = meter_new lib numberOfExecInstrument;
          a1 = a0 @ [NewInstrument numberOfExecInstrument r1]
      in case r1 of
           Err e \<Rightarrow> (a1 @ [Panic e], Panics e)
         | Hangs \<Rightarrow> (a1, Never)
         | Ok \<Rightarrow>
            (let r2 = meter_new lib heapMemoryInstrument;
                 a2 = a1 @ [CounterBind [(numberOfExecName, numberOfExecDesc)],
                            NewInstrument heapMemoryInstrument r2]
             in case r2 of
                  Err e \<Rightarrow> (a2 @ [Panic e], Panics e)
                | Hangs \<Rightarrow> (a2, Never)
                | Ok \<Rightarrow>
                   (let r3 = http_ListenAndServe lib '':8888'';
                        a3 = a2 @ [RouterUse serviceName, HandleFunc ''/hello'',
                                   ListenAndServe '':8888'' r3]
                    in case r3 of
                         Serves_forever \<Rightarrow> (a3, Never)
                       | Serve_returns e \<Rightarrow> (a3, Returns))))"

text \<open>
  main. A panic runs the deferred Stop and then ends the process with exit code 2;
  a return from main runs it and ends the process with exit code 0.
\<close>

definition main :: "library \<Rightarrow> process" where
  "main lib =
     (let ep = os_Getenv lib ''EXPORTER_ENDPOINT'';
          r1 = resource_New lib resource_attributes;
          a1 = [Getenv ''EXPORTER_ENDPOINT'', ResourceNew resource_attributes r1]
      in case r1 of
           Err e \<Rightarrow> log_Fatalf a1 ''failed to create resource'' e
         | Hangs \<Rightarrow> blocked a1
         | Ok \<Rightarrow>
      (let r2 = otlptracegrpc_New lib (exporter_opts ep);
           a2 = a1 @ [TraceExporterNew (exporter_opts ep) r2]
       in case r2 of
            Err e \<Rightarrow> log_Fatalf a2 ''failed to create exporter'' e
          | Hangs \<Rightarrow> blocked a2
          | Ok \<Rightarrow>
      (let r3 = otlpmetricgrpc_New lib (exporter_opts ep);
           a3 = a2 @ [SetTracerProvider (tracer_provider ep),
                      SetTextMapPropagator [''baggage'', ''tracecontext''],
                      MetricExporterNew (exporter_opts ep) r3]
       in case r3 of
            Err e \<Rightarrow> log_Fatalf a3 ''failed to create exporter'' e
          | Hangs \<Rightarrow> blocked a3
          | Ok \<Rightarrow>
      (let r4 = pusher_Start lib (pusher ep);
           a4 = a3 @ [ControllerStart (pusher ep) r4]
       in case r4 of
            Err e \<Rightarrow> log_Fatalf a4 ''failed to start the controller'' e
          | Hangs \<Rightarrow> blocked a4
          | Ok \<Rightarrow>
             (case main_after_defer lib of
                (a5, Returns) \<Rightarrow> \<lparr>actions = a4 @ a5 @ [ControllerStop], exit_code = Some 0\<rparr>
              | (a5, Panics e) \<Rightarrow> \<lparr>actions = a4 @ a5 @ [ControllerStop], exit_code = Some 2\<rparr>
              | (a5, Never) \<Rightarrow> blocked (a4 @ a5))))))"

text \<open>Whether a run got as far as calling ListenAndServe, which binds the port.\<close>

definition binds_port :: "process \<Rightarrow> bool" where
  "binds_port p = list_ex (\<lambda>a. case a of ListenAndServe addr r \<Rightarrow> True | _ \<Rightarrow> False) (actions p)"

text \<open>Whether a run printed a fatal log line.\<close>

definition logs_fatal :: "process \<Rightarrow> bool" where
  "logs_fatal p = list_ex (\<lambda>a. case a of LogFatal msg \<Rightarrow> True | _ \<Rightarrow> False) (actions p)"

section \<open>Concrete environments\<close>

text \<open>
  A library in which every call succeeds and the server serves for ever, in a process
  whose environment sets no variable; a call that gives the same result whatever it
  is passed; a dialler that blocks on the empty address; a content sniffer that finds
  plain text.
\<close>

definition always :: "'b \<Rightarrow> 'a \<Rightarrow> 'b" where
  "always r x = r"

definition lib_ok :: library where
  "lib_ok =
     \<lparr>environ = Map.empty, resource_New = always Ok, otlptracegrpc_New = always Ok,
      otlpmetricgrpc_New = always Ok, pusher_Start = always Ok, meter_new = always Ok,
      http_ListenAndServe = always Serves_forever\<rparr>"

definition dial_needs_address :: "exporter_options \<Rightarrow> outcome" where
  "dial_needs_address opts = (if endpoint opts = [] then Hangs else Ok)"

definition plain_text_sniff :: "string \<Rightarrow> string" where
  "plain_text_sniff bytes = ''text/plain; charset=utf-8''"

section \<open>What one call of the handler does\<close>

lemmas handler_defs = hello_def buildResponse_def tracer_Start_def span_End_def counter_Add_def
  log_Print_def writer_WriteHeader_def writer_Header_Add_def writer_Write_def emit_def
  isValid_def StatusOK_def Let_def

lemma json_Marshal_hello:
  "json_Marshal \<lparr>Message = ''Hello World''\<rparr> = Inr ''{\"Message\":\"Hello World\"}''"
  by (simp add: json_Marshal_def json_string_def json_escape_def)

lemma hello_events:
  "events (hello sniff clock ctx w) = events w @
     [SpanStarted (length (spans w)) ''buildResponse'',
      WroteHeader 200,
      HeaderAdded ''Content-Type'' ''application/json'',
      WroteBody ''{\"Message\":\"Hello World\"}'',
      SpanEnded (length (spans w)),
      SpanStarted (Suc (length (spans w))) ''mySpan'',
      LogPrinted ''The response is valid'',
      SpanEnded (Suc (length (spans w))),
      CounterAdded 1]"
  by (simp add: handler_defs json_Marshal_hello nth_append)

lemma hello_spans:
  "spans (hello sniff clock ctx w) = spans w @
     [\<lparr>span_name = ''buildResponse'', span_parent = ctx,
       span_start = clock (clock_reads w),
       span_end = Some (clock (Suc (clock_reads w)))\<rparr>,
      \<lparr>span_name = ''mySpan'', span_parent = Some (length (spans w)),
       span_start = clock (Suc (Suc (clock_reads w))),
       span_end = Some (clock (Suc (Suc (Suc (clock_reads w)))))\<rparr>]"
  by (simp add: handler_defs json_Marshal_hello nth_append list_update_append)

lemma hello_counter:
  "numberOfExecutions (hello sniff clock ctx w) = numberOfExecutions w + 1"
  by (simp add: handler_defs json_Marshal_hello nth_append)

lemma hello_log:
  "log_lines (hello sniff clock ctx w) = log_lines w @ [''The response is valid'']"
  by (simp add: handler_defs json_Marshal_hello nth_append)

lemma hello_clock:
  "clock_reads (hello sniff clock ctx w) = Suc (Suc (Suc (Suc (clock_reads w))))"
  by (simp add: handler_defs json_Marshal_hello nth_append)

lemma hello_writer:
  "writer (hello sniff clock ctx w) =
     rw_Write sniff ''{\"Message\":\"Hello World\"}''
       (rw_Header_Add ''Content-Type'' ''application/json'' (rw_WriteHeader 200 (writer w)))"
  by (simp add: handler_defs json_Marshal_hello nth_append)

lemma fresh_writer_after_hello:
  "rw_Write sniff ''{\"Message\":\"Hello World\"}''
     (rw_Header_Add ''Content-Type'' ''application/json'' (rw_WriteHeader 200 newResponseWriter)) =
   \<lparr>handlerHeader = [''Content-Type'' \<mapsto> [''application/json'']], wroteHeader = True,
    status = 200,
    sentHeader = [''Content-Type'' \<mapsto> [sniff ''{\"Message\":\"Hello World\"}'']],
    body = ''{\"Message\":\"Hello World\"}''\<rparr>"
  by (simp add: rw_Write_def rw_Header_Add_def rw_WriteHeader_def newResponseWriter_def
      Header_Add_def StatusOK_def)

text \<open>
  The writer does send a header that is set before WriteHeader: had buildResponse
  added Content-Type first, the response would carry it and nothing would be sniffed.
\<close>

lemma header_added_before_WriteHeader_is_sent:
  "sentHeader (rw_Write sniff bytes
     (rw_WriteHeader 200 (rw_Header_Add ''Content-Type'' ''application/json'' newResponseWriter)))
     ''Content-Type'' = Some [''application/json'']"
  by (simp add: rw_Write_def rw_Header_Add_def rw_WriteHeader_def newResponseWriter_def
      Header_Add_def StatusOK_def Let_def)

subsection \<open>One request through the middleware, and many\<close>

lemmas serve_defs = serve_hello_def tracer_Start_def span_End_def emit_def Let_def route_def

lemma serve_hello_spans:
  "spans (serve_hello sniff clock w) = spans w @
     [\<lparr>span_name = ''/hello'', span_parent = None,
       span_start = clock (clock_reads w), span_end = Some (clock (clock_reads w + 5))\<rparr>,
      \<lparr>span_name = ''buildResponse'', span_parent = Some (length (spans w)),
       span_start = clock (clock_reads w + 1), span_end = Some (clock (clock_reads w + 2))\<rparr>,
      \<lparr>span_name = ''mySpan'', span_parent = Some (length (spans w) + 1),
       span_start = clock (clock_reads w + 3), span_end = Some (clock (clock_reads w + 4))\<rparr>]"
  by (simp add: serve_defs hello_spans hello_clock nth_append eval_nat_numeral)

lemma serve_hello_events:
  "events (serve_hello sniff clock w) = events w @
     [SpanStarted (length (spans w)) ''/hello'',
      SpanStarted (length (spans w) + 1) ''buildResponse'',
      WroteHeader 200,
      HeaderAdded ''Content-Type'' ''application/json'',
      WroteBody ''{\"Message\":\"Hello World\"}'',
      SpanEnded (length (spans w) + 1),
      SpanStarted (length (spans w) + 2) ''mySpan'',
      LogPrinted ''The response is valid'',
      SpanEnded (length (spans w) + 2),
      CounterAdded 1,
      SpanEnded (length (spans w))]"
  by (simp add: serve_defs hello_events hello_spans nth_append)

lemma serve_hello_writer:
  "writer (serve_hello sniff clock w) =
     \<lparr>handlerHeader = [''Content-Type'' \<mapsto> [''application/json'']], wroteHeader = True,
      status = 200,
      sentHeader = [''Content-Type'' \<mapsto> [sniff ''{\"Message\":\"Hello World\"}'']],
      body = ''{\"Message\":\"Hello World\"}''\<rparr>"
  by (simp add: serve_defs hello_writer fresh_writer_after_hello)

lemma serve_hello_counter:
  "numberOfExecutions (serve_hello sniff clock w) = numberOfExecutions w + 1"
  by (simp add: serve_defs hello_counter)

lemma serve_hello_log:
  "log_lines (serve_hello sniff clock w) = log_lines w @ [''The response is valid'']"
  by (simp add: serve_defs hello_log)

lemma counter_deltas_append:
  "counter_deltas (xs @ ys) = counter_deltas xs @ counter_deltas ys"
  by (induction xs) (simp_all split: event.splits)

lemma serve_requests_counter:
  "numberOfExecutions (serve_requests sniff clock n w) = numberOfExecutions w + int n"
  by (induction n arbitrary: w) (simp_all add: serve_hello_counter)

lemma serve_requests_deltas:
  "counter_deltas (events (serve_requests sniff clock n w)) =
     counter_deltas (events w) @ replicate n 1"
  by (induction n arbitrary: w)
     (simp_all add: serve_hello_events counter_deltas_append replicate_app_Cons_same)

lemma serve_requests_log:
  "log_lines (serve_requests sniff clock n w) =
     log_lines w @ replicate n ''The response is valid''"
  by (induction n arbitrary: w) (simp_all add: serve_hello_log replicate_app_Cons_same)

section \<open>The claims about the handler\<close>

text \<open>
  Claim C1: every completed request to /hello gets status 200, the header Content-Type:
  application/json and the body \<^verbatim>\<open>{"Message":"Hello World"}\<close>. The status and the body
  are as claimed. The header is not: \<^verbatim>\<open>buildResponse\<close> calls WriteHeader(200) before it
  adds Content-Type to the header map, so the value it adds stays in the map of the
  handler and the response is sent with the Content-Type that the sniffer finds for
  the body. The theorem evaluates the handler on a fresh writer, for every sniffer,
  clock, context and state.
\<close>

theorem hello_response_on_the_wire:
  "status (writer (hello sniff clock ctx (w\<lparr>writer := newResponseWriter\<rparr>))) = 200 \<and>
   body (writer (hello sniff clock ctx (w\<lparr>writer := newResponseWriter\<rparr>))) =
     ''{\"Message\":\"Hello World\"}'' \<and>
   handlerHeader (writer (hello sniff clock ctx (w\<lparr>writer := newResponseWriter\<rparr>))) ''Content-Type'' =
     Some [''application/json''] \<and>
   sentHeader (writer (hello sniff clock ctx (w\<lparr>writer := newResponseWriter\<rparr>))) ''Content-Type'' =
     Some [sniff ''{\"Message\":\"Hello World\"}''] \<and>
   sentHeader (writer (serve_hello plain_text_sniff int initial_world)) ''Content-Type'' =
     Some [''text/plain; charset=utf-8'']"
  by (simp add: hello_writer fresh_writer_after_hello serve_hello_writer plain_text_sniff_def)

text \<open>
  Claim C2, as amended: one call of the handler produces exactly two spans, named
  buildResponse and mySpan. buildResponse is a child of the span in the context of the
  request, which is the root span of the route when the request comes through the
  middleware. mySpan is started from the context that the first Start returned, so it
  is a child of buildResponse and not of the root span. With a clock that never goes
  back, each span ends no earlier than it starts and buildResponse has ended when
  mySpan starts, so the two do not overlap; with a clock that always advances the
  inequalities are strict.
\<close>

theorem hello_spans_nesting:
  "(mono clock \<longrightarrow>
      (\<exists>s1 e1 s2 e2.
         spans (hello sniff clock ctx w) = spans w @
           [\<lparr>span_name = ''buildResponse'', span_parent = ctx,
             span_start = s1, span_end = Some e1\<rparr>,
            \<lparr>span_name = ''mySpan'', span_parent = Some (length (spans w)),
             span_start = s2, span_end = Some e2\<rparr>] \<and>
         s1 \<le> e1 \<and> e1 \<le> s2 \<and> s2 \<le> e2)) \<and>
   (strict_mono clock \<longrightarrow>
      (\<exists>s0 e0 s1 e1 s2 e2.
         spans (serve_hello sniff clock w) = spans w @
           [\<lparr>span_name = ''/hello'', span_parent = None,
             span_start = s0, span_end = Some e0\<rparr>,
            \<lparr>span_name = ''buildResponse'', span_parent = Some (length (spans w)),
             span_start = s1, span_end = Some e1\<rparr>,
            \<lparr>span_name = ''mySpan'', span_parent = Some (length (spans w) + 1),
             span_start = s2, span_end = Some e2\<rparr>] \<and>
         s0 < s1 \<and> s1 < e1 \<and> e1 < s2 \<and> s2 < e2 \<and> e2 < e0))"
proof (intro conjI impI)
  assume m: "mono clock"
  have "clock (clock_reads w) \<le> clock (Suc (clock_reads w))"
    and "clock (Suc (clock_reads w)) \<le> clock (Suc (Suc (clock_reads w)))"
    and "clock (Suc (Suc (clock_reads w))) \<le> clock (Suc (Suc (Suc (clock_reads w))))"
    using m by (simp_all add: mono_def)
  then show "\<exists>s1 e1 s2 e2.
         spans (hello sniff clock ctx w) = spans w @
           [\<lparr>span_name = ''buildResponse'', span_parent = ctx,
             span_start = s1, span_end = Some e1\<rparr>,
            \<lparr>span_name = ''mySpan'', span_parent = Some (length (spans w)),
             span_start = s2, span_end = Some e2\<rparr>] \<and>
         s1 \<le> e1 \<and> e1 \<le> s2 \<and> s2 \<le> e2"
    by (simp add: hello_spans)
next
  assume sm: "strict_mono clock"
  have "clock (clock_reads w) < clock (clock_reads w + 1)"
    and "clock (clock_reads w + 1) < clock (clock_reads w + 2)"
    and "clock (clock_reads w + 2) < clock (clock_reads w + 3)"
    and "clock (clock_reads w + 3) < clock (clock_reads w + 4)"
    and "clock (clock_reads w + 4) < clock (clock_reads w + 5)"
    using sm by (simp_all add: strict_mono_def)
  then show "\<exists>s0 e0 s1 e1 s2 e2.
         spans (serve_hello sniff clock w) = spans w @
           [\<lparr>span_name = ''/hello'', span_parent = None,
             span_start = s0, span_end = Some e0\<rparr>,
            \<lparr>span_name = ''buildResponse'', span_parent = Some (length (spans w)),
             span_start = s1, span_end = Some e1\<rparr>,
            \<lparr>span_name = ''mySpan'', span_parent = Some (length (spans w) + 1),
             span_start = s2, span_end = Some e2\<rparr>] \<and>
         s0 < s1 \<and> s1 < e1 \<and> e1 < s2 \<and> s2 < e2 \<and> e2 < e0"
    by (simp add: serve_hello_spans)
qed

text \<open>
  The amended claim at a concrete request: the clock that reads 0, 1, 2, ... is
  monotone and strictly so, and the first request of a fresh process gives the three
  spans below.
\<close>

theorem hello_spans_nesting_witness:
  "mono int \<and> strict_mono int \<and>
   (\<exists>s1 e1 s2 e2.
      spans (hello plain_text_sniff int None initial_world) =
        [\<lparr>span_name = ''buildResponse'', span_parent = None,
          span_start = s1, span_end = Some e1\<rparr>,
         \<lparr>span_name = ''mySpan'', span_parent = Some 0,
          span_start = s2, span_end = Some e2\<rparr>] \<and>
      s1 \<le> e1 \<and> e1 \<le> s2 \<and> s2 \<le> e2) \<and>
   (\<exists>s0 e0 s1 e1 s2 e2.
      spans (serve_hello plain_text_sniff int initial_world) =
        [\<lparr>span_name = ''/hello'', span_parent = None,
          span_start = s0, span_end = Some e0\<rparr>,
         \<lparr>span_name = ''buildResponse'', span_parent = Some 0,
          span_start = s1, span_end = Some e1\<rparr>,
         \<lparr>span_name = ''mySpan'', span_parent = Some 1,
          span_start = s2, span_end = Some e2\<rparr>] \<and>
      s0 < s1 \<and> s1 < e1 \<and> e1 < s2 \<and> s2 < e2 \<and> e2 < e0)"
proof -
  have m: "mono int" by (simp add: mono_def)
  have sm: "strict_mono int" by (simp add: strict_mono_def)
  show ?thesis
    using m sm
      hello_spans_nesting [of int plain_text_sniff None initial_world, THEN conjunct1, rule_format, OF m]
      hello_spans_nesting [of int plain_text_sniff None initial_world, THEN conjunct2, rule_format, OF sm]
    by (simp add: initial_world_def)
qed

text \<open>
  Claim C2 as stated fails: it has both spans directly under the root span of the
  route. In the first request of a fresh process the root span is span 0, buildResponse
  is span 1 and mySpan is span 2, and the parent of mySpan is span 1.
\<close>

theorem mySpan_parent_is_buildResponse:
  "spans (serve_hello plain_text_sniff int initial_world) =
     [\<lparr>span_name = ''/hello'', span_parent = None, span_start = 0, span_end = Some 5\<rparr>,
      \<lparr>span_name = ''buildResponse'', span_parent = Some 0, span_start = 1, span_end = Some 2\<rparr>,
      \<lparr>span_name = ''mySpan'', span_parent = Some 1, span_start = 3, span_end = Some 4\<rparr>] \<and>
   span_parent (spans (serve_hello plain_text_sniff int initial_world) ! 2) \<noteq> Some 0"
  by (simp add: serve_hello_spans initial_world_def)

text \<open>
  Claim C3: every execution of the handler performs exactly one Add on the counter,
  with increment 1, so the sum accumulated by the counter grows by 1 with each request
  and is N after N requests served by a fresh process. (Requests are served one after
  the other here; the sum is the unbounded integer the increments add up to.)
\<close>

theorem counter_counts_requests:
  "counter_deltas (events (hello sniff clock ctx w)) = counter_deltas (events w) @ [1] \<and>
   numberOfExecutions (hello sniff clock ctx w) = numberOfExecutions w + 1 \<and>
   counter_deltas (events (serve_requests sniff clock n initial_world)) = replicate n 1 \<and>
   numberOfExecutions (serve_requests sniff clock n initial_world) = int n"
  by (simp add: hello_events hello_counter counter_deltas_append serve_requests_deltas
      serve_requests_counter initial_world_def)

text \<open>
  Claim C7: the calls of one request come in the order of the state machine. The
  buildResponse span is started, the response is written and the span is ended; then
  the mySpan span is started and ended; then the counter is incremented, and that is
  the last thing the handler does. When the handler returns both of its spans have
  ended. Around the handler, the middleware starts the root span before and ends it
  after; that is the only call that follows the return of the handler, and it leaves
  the writer and the two spans of the handler as they were when the handler returned.
\<close>

theorem hello_call_order:
  "events (hello sniff clock ctx w) = events w @
     [SpanStarted (length (spans w)) ''buildResponse'',
      WroteHeader 200,
      HeaderAdded ''Content-Type'' ''application/json'',
      WroteBody ''{\"Message\":\"Hello World\"}'',
      SpanEnded (length (spans w)),
      SpanStarted (Suc (length (spans w))) ''mySpan'',
      LogPrinted ''The response is valid'',
      SpanEnded (Suc (length (spans w))),
      CounterAdded 1] \<and>
   list_all (\<lambda>sp. span_end sp \<noteq> None) (drop (length (spans w)) (spans (hello sniff clock ctx w))) \<and>
   events (serve_hello sniff clock w) = events w @
     [SpanStarted (length (spans w)) ''/hello'',
      SpanStarted (length (spans w) + 1) ''buildResponse'',
      WroteHeader 200,
      HeaderAdded ''Content-Type'' ''application/json'',
      WroteBody ''{\"Message\":\"Hello World\"}'',
      SpanEnded (length (spans w) + 1),
      SpanStarted (length (spans w) + 2) ''mySpan'',
      LogPrinted ''The response is valid'',
      SpanEnded (length (spans w) + 2),
      CounterAdded 1,
      SpanEnded (length (spans w))] \<and>
   writer (serve_hello sniff clock w) =
     writer (hello sniff clock (Some (length (spans w)))
       (snd (tracer_Start clock None route (w\<lparr>writer := newResponseWriter\<rparr>)))) \<and>
   drop (Suc (length (spans w))) (spans (serve_hello sniff clock w)) =
     drop (Suc (length (spans w))) (spans (hello sniff clock (Some (length (spans w)))
       (snd (tracer_Start clock None route (w\<lparr>writer := newResponseWriter\<rparr>)))))"
proof -
  have frame:
    "writer (serve_hello sniff clock w) =
       writer (hello sniff clock (Some (length (spans w)))
         (snd (tracer_Start clock None route (w\<lparr>writer := newResponseWriter\<rparr>)))) \<and>
     drop (Suc (length (spans w))) (spans (serve_hello sniff clock w)) =
       drop (Suc (length (spans w))) (spans (hello sniff clock (Some (length (spans w)))
         (snd (tracer_Start clock None route (w\<lparr>writer := newResponseWriter\<rparr>)))))"
    by (simp add: serve_defs hello_spans hello_writer nth_append)
  have order:
    "list_all (\<lambda>sp. span_end sp \<noteq> None)
       (drop (length (spans w)) (spans (hello sniff clock ctx w)))"
    by (simp add: hello_spans)
  show ?thesis
    using frame order by (simp only: hello_events serve_hello_events simp_thms)
qed

text \<open>
  Claim C10: \<open>isValid\<close> is true of every Response, so the check inside the mySpan span
  always succeeds: every call of the handler prints the line "The response is valid",
  between the start and the end of mySpan, and N requests print it N times.
\<close>

theorem isValid_always_and_logged:
  "isValid r \<and>
   log_lines (hello sniff clock ctx w) = log_lines w @ [''The response is valid''] \<and>
   (\<exists>before after.
      events (hello sniff clock ctx w) =
        before @ [SpanStarted (Suc (length (spans w))) ''mySpan'',
                  LogPrinted ''The response is valid'',
                  SpanEnded (Suc (length (spans w)))] @ after) \<and>
   log_lines (serve_requests sniff clock n w) =
     log_lines w @ replicate n ''The response is valid''"
proof -
  have "events (hello sniff clock ctx w) =
      (events w @ [SpanStarted (length (spans w)) ''buildResponse'', WroteHeader 200,
         HeaderAdded ''Content-Type'' ''application/json'',
         WroteBody ''{\"Message\":\"Hello World\"}'', SpanEnded (length (spans w))]) @
      [SpanStarted (Suc (length (spans w))) ''mySpan'', LogPrinted ''The response is valid'',
       SpanEnded (Suc (length (spans w)))] @ [CounterAdded 1]"
    by (simp add: hello_events)
  then have "\<exists>before after.
      events (hello sniff clock ctx w) =
        before @ [SpanStarted (Suc (length (spans w))) ''mySpan'',
                  LogPrinted ''The response is valid'',
                  SpanEnded (Suc (length (spans w)))] @ after"
    by blast
  then show ?thesis
    by (simp add: isValid_def hello_log serve_requests_log)
qed

section \<open>The runs of main\<close>

text \<open>
  main is a chain of calls, each of which ends the run unless it returns without an
  error. The rule below lists the fourteen ways a run can go, each with the run it
  gives and the results of the calls that lead there.
\<close>

lemma main_cases:
  fixes lib :: library
  defines "ep \<equiv> os_Getenv lib ''EXPORTER_ENDPOINT''"
  defines "a1 \<equiv> \<lambda>r. [Getenv ''EXPORTER_ENDPOINT'', ResourceNew resource_attributes r]"
  defines "a2 \<equiv> \<lambda>r. a1 Ok @ [TraceExporterNew (exporter_opts ep) r]"
  defines "a3 \<equiv> \<lambda>r. a2 Ok @ [SetTracerProvider (tracer_provider ep),
                  SetTextMapPropagator [''baggage'', ''tracecontext''],
                  MetricExporterNew (exporter_opts ep) r]"
  defines "a4 \<equiv> \<lambda>r. a3 Ok @ [ControllerStart (pusher ep) r]"
  defines "a5 \<equiv> \<lambda>r. a4 Ok @ [SetMeterProvider, NewInstrument numberOfExecInstrument r]"
  defines "a6 \<equiv> \<lambda>r. a5 Ok @ [CounterBind [(numberOfExecName, numberOfExecDesc)],
                  NewInstrument heapMemoryInstrument r]"
  defines "a7 \<equiv> \<lambda>r. a6 Ok @ [RouterUse serviceName, HandleFunc ''/hello'',
                  ListenAndServe '':8888'' r]"
  obtains
    (resource_err) e where
      "main lib = \<lparr>actions = a1 (Err e) @ [LogFatal (''failed to create resource: '' @ e)],
                   exit_code = Some 1\<rparr>"
      "resource_New lib resource_attributes = Err e"
  | (resource_hangs)
      "main lib = \<lparr>actions = a1 Hangs, exit_code = None\<rparr>"
      "resource_New lib resource_attributes = Hangs"
  | (trace_err) e where
      "main lib = \<lparr>actions = a2 (Err e) @ [LogFatal (''failed to create exporter: '' @ e)],
                   exit_code = Some 1\<rparr>"
      "resource_New lib resource_attributes = Ok"
      "otlptracegrpc_New lib (exporter_opts ep) = Err e"
  | (trace_hangs)
      "main lib = \<lparr>actions = a2 Hangs, exit_code = None\<rparr>"
      "resource_New lib resource_attributes = Ok"
      "otlptracegrpc_New lib (exporter_opts ep) = Hangs"
  | (metric_err) e where
      "main lib = \<lparr>actions = a3 (Err e) @ [LogFatal (''failed to create exporter: '' @ e)],
                   exit_code = Some 1\<rparr>"
      "resource_New lib resource_attributes = Ok"
      "otlptracegrpc_New lib (exporter_opts ep) = Ok"
      "otlpmetricgrpc_New lib (exporter_opts ep) = Err e"
  | (metric_hangs)
      "main lib = \<lparr>actions = a3 Hangs, exit_code = None\<rparr>"
      "resource_New lib resource_attributes = Ok"
      "otlptracegrpc_New lib (exporter_opts ep) = Ok"
      "otlpmetricgrpc_New lib (exporter_opts ep) = Hangs"
  | (start_err) e where
      "main lib = \<lparr>actions = a4 (Err e) @ [LogFatal (''failed to start the controller: '' @ e)],
                   exit_code = Some 1\<rparr>"
      "resource_New lib resource_attributes = Ok"
      "otlptracegrpc_New lib (exporter_opts ep) = Ok"
      "otlpmetricgrpc_New lib (exporter_opts ep) = Ok"
      "pusher_Start lib (pusher ep) = Err e"
  | (start_hangs)
      "main lib = \<lparr>actions = a4 Hangs, exit_code = None\<rparr>"
      "resource_New lib resource_attributes = Ok"
      "otlptracegrpc_New lib (exporter_opts ep) = Ok"
      "otlpmetricgrpc_New lib (exporter_opts ep) = Ok"
      "pusher_Start lib (pusher ep) = Hangs"
  | (counter_panics) e where
      "main lib = \<lparr>actions = a5 (Err e) @ [Panic e, ControllerStop], exit_code = Some 2\<rparr>"
      "resource_New lib resource_attributes = Ok"
      "otlptracegrpc_New lib (exporter_opts ep) = Ok"
      "otlpmetricgrpc_New lib (exporter_opts ep) = Ok"
      "pusher_Start lib (pusher ep) = Ok"
      "meter_new lib numberOfExecInstrument = Err e"
  | (counter_hangs)
      "main lib = \<lparr>actions = a5 Hangs, exit_code = None\<rparr>"
      "resource_New lib resource_attributes = Ok"
      "otlptracegrpc_New lib (exporter_opts ep) = Ok"
      "otlpmetricgrpc_New lib (exporter_opts ep) = Ok"
      "pusher_Start lib (pusher ep) = Ok"
      "meter_new lib numberOfExecInstrument = Hangs"
  | (observer_panics) e where
      "main lib = \<lparr>actions = a6 (Err e) @ [Panic e, ControllerStop], exit_code = Some 2\<rparr>"
      "resource_New lib resource_attributes = Ok"
      "otlptracegrpc_New lib (exporter_opts ep) = Ok"
      "otlpmetricgrpc_New lib (exporter_opts ep) = Ok"
      "pusher_Start lib (pusher ep) = Ok"
      "meter_new lib numberOfExecInstrument = Ok"
      "meter_new lib heapMemoryInstrument = Err e"
  | (observer_hangs)
      "main lib = \<lparr>actions = a6 Hangs, exit_code = None\<rparr>"
      "resource_New lib resource_attributes = Ok"
      "otlptracegrpc_New lib (exporter_opts ep) = Ok"
      "otlpmetricgrpc_New lib (exporter_opts ep) = Ok"
      "pusher_Start lib (pusher ep) = Ok"
      "meter_new lib numberOfExecInstrument = Ok"
      "meter_new lib heapMemoryInstrument = Hangs"
  | (serving)
      "main lib = \<lparr>actions = a7 Serves_forever, exit_code = None\<rparr>"
      "resource_New lib resource_attributes = Ok"
      "otlptracegrpc_New lib (exporter_opts ep) = Ok"
      "otlpmetricgrpc_New lib (exporter_opts ep) = Ok"
      "pusher_Start lib (pusher ep) = Ok"
      "meter_new lib numberOfExecInstrument = Ok"
      "meter_new lib heapMemoryInstrument = Ok"
      "http_ListenAndServe lib '':8888'' = Serves_forever"
  | (serve_returns) e where
      "main lib = \<lparr>actions = a7 (Serve_returns e) @ [ControllerStop], exit_code = Some 0\<rparr>"
      "resource_New lib resource_attributes = Ok"
      "otlptracegrpc_New lib (exporter_opts ep) = Ok"
      "otlpmetricgrpc_New lib (exporter_opts ep) = Ok"
      "pusher_Start lib (pusher ep) = Ok"
      "meter_new lib numberOfExecInstrument = Ok"
      "meter_new lib heapMemoryInstrument = Ok"
      "http_ListenAndServe lib '':8888'' = Serve_returns e"
proof -
  note defs = main_def main_after_defer_def log_Fatalf_def blocked_def Let_def
    ep_def a1_def a2_def a3_def a4_def a5_def a6_def a7_def
  show ?thesis
  proof (cases "resource_New lib resource_attributes")
    case (Err e)
    then show ?thesis using resource_err [of e] by (simp add: defs)
  next
    case Hangs
    then show ?thesis using resource_hangs by (simp add: defs)
  next
    case r1: Ok
    show ?thesis
    proof (cases "otlptracegrpc_New lib (exporter_opts ep)")
      case (Err e)
      with r1 show ?thesis using trace_err [of e] by (simp add: defs)
    next
      case Hangs
      with r1 show ?thesis using trace_hangs by (simp add: defs)
    next
      case r2: Ok
      show ?thesis
      proof (cases "otlpmetricgrpc_New lib (exporter_opts ep)")
        case (Err e)
        with r1 r2 show ?thesis using metric_err [of e] by (simp add: defs)
      next
        case Hangs
        with r1 r2 show ?thesis using metric_hangs by (simp add: defs)
      next
        case r3: Ok
        show ?thesis
        proof (cases "pusher_Start lib (pusher ep)")
          case (Err e)
          with r1 r2 r3 show ?thesis using start_err [of e] by (simp add: defs)
        next
          case Hangs
          with r1 r2 r3 show ?thesis using start_hangs by (simp add: defs)
        next
          case r4: Ok
          show ?thesis
          proof (cases "meter_new lib numberOfExecInstrument")
            case (Err e)
            with r1 r2 r3 r4 show ?thesis using counter_panics [of e] by (simp add: defs)
          next
            case Hangs
            with r1 r2 r3 r4 show ?thesis using counter_hangs by (simp add: defs)
          next
            case r5: Ok
            show ?thesis
            proof (cases "meter_new lib heapMemoryInstrument")
              case (Err e)
              with r1 r2 r3 r4 r5 show ?thesis using observer_panics [of e] by (simp add: defs)
            next
              case Hangs
              with r1 r2 r3 r4 r5 show ?thesis using observer_hangs by (simp add: defs)
            next
              case r6: Ok
              show ?thesis
              proof (cases "http_ListenAndServe lib '':8888''")
                case Serves_forever
                with r1 r2 r3 r4 r5 r6 show ?thesis using serving by (simp add: defs)
              next
                case (Serve_returns e)
                with r1 r2 r3 r4 r5 r6 show ?thesis using serve_returns [of e] by (simp add: defs)
              qed
            qed
          qed
        qed
      qed
    qed
  qed
qed

text \<open>The port is bound exactly when every call before ListenAndServe has succeeded.\<close>

lemma binds_port_iff:
  "binds_port (main lib) \<longleftrightarrow>
     resource_New lib resource_attributes = Ok \<and>
     otlptracegrpc_New lib (exporter_opts (os_Getenv lib ''EXPORTER_ENDPOINT'')) = Ok \<and>
     otlpmetricgrpc_New lib (exporter_opts (os_Getenv lib ''EXPORTER_ENDPOINT'')) = Ok \<and>
     pusher_Start lib (pusher (os_Getenv lib ''EXPORTER_ENDPOINT'')) = Ok \<and>
     meter_new lib numberOfExecInstrument = Ok \<and> meter_new lib heapMemoryInstrument = Ok"
  by (rule main_cases [of lib]) (simp_all add: binds_port_def)

lemmas const_defs = tracer_provider_def pusher_def resource_attributes_def exporter_opts_def
  ServiceNameKey_def ServiceVersionKey_def serviceName_def serviceVersion_def time_Second_def
  numberOfExecInstrument_def heapMemoryInstrument_def numberOfExecName_def heapMemoryName_def
  numberOfExecDesc_def heapMemoryDesc_def metricPrefix_def

lemmas run_defs = main_def main_after_defer_def log_Fatalf_def blocked_def binds_port_def
  logs_fatal_def
  Let_def lib_ok_def always_def os_Getenv_def dial_needs_address_def

text \<open>The conversion of the callback is the identity below \<open>2 ^ 63\<close>.\<close>

lemma sint_of_small:
  fixes h :: "64 word"
  assumes "unat h < 2 ^ 63"
  shows "sint h = int (unat h)"
proof -
  have "int (unat h) < int (2 ^ 63)"
    using assms by (simp only: of_nat_less_iff)
  then have "uint h < 2 ^ 63"
    by (simp only: of_nat_power of_nat_numeral of_nat_unat)
  moreover have "- (2 ^ 63) \<le> uint h"
    by (rule order_trans [of _ 0]) simp_all
  ultimately have "signed_take_bit 63 (uint h) = uint h"
    by (rule signed_take_bit_int_eq_self [rotated])
  then show ?thesis
    by (simp add: sint_uint)
qed

section \<open>The claims about main and the observer\<close>

text \<open>
  Claim C4, as amended: when the creation of the resource, the construction of the
  trace or of the metric exporter, or the start of the metric controller returns an
  error, the process logs a fatal error and exits with code 1, and the port is not
  bound. When one of these calls does not return, as an exporter that dials an
  endpoint it cannot reach (\<^verbatim>\<open>grpc.WithBlock()\<close> under \<^verbatim>\<open>context.Background()\<close>, which
  has no deadline), the process logs nothing fatal and does not exit; the port is not
  bound then either. The port is bound only when all four calls have returned without
  an error. When every call of the startup succeeds and the server serves, the process
  does not exit.
\<close>

theorem startup_failure_is_fatal:
  fixes lib :: library
  defines "ep \<equiv> os_Getenv lib ''EXPORTER_ENDPOINT''"
  shows
    "(resource_New lib resource_attributes = Err e \<longrightarrow>
        exit_code (main lib) = Some 1 \<and> \<not> binds_port (main lib) \<and>
        last (actions (main lib)) = LogFatal (''failed to create resource: '' @ e)) \<and>
     (resource_New lib resource_attributes = Ok \<and>
      otlptracegrpc_New lib (exporter_opts ep) = Err e \<longrightarrow>
        exit_code (main lib) = Some 1 \<and> \<not> binds_port (main lib) \<and>
        last (actions (main lib)) = LogFatal (''failed to create exporter: '' @ e)) \<and>
     (resource_New lib resource_attributes = Ok \<and>
      otlptracegrpc_New lib (exporter_opts ep) = Ok \<and>
      otlpmetricgrpc_New lib (exporter_opts ep) = Err e \<longrightarrow>
        exit_code (main lib) = Some 1 \<and> \<not> binds_port (main lib) \<and>
        last (actions (main lib)) = LogFatal (''failed to create exporter: '' @ e)) \<and>
     (resource_New lib resource_attributes = Ok \<and>
      otlptracegrpc_New lib (exporter_opts ep) = Ok \<and>
      otlpmetricgrpc_New lib (exporter_opts ep) = Ok \<and>
      pusher_Start lib (pusher ep) = Err e \<longrightarrow>
        exit_code (main lib) = Some 1 \<and> \<not> binds_port (main lib) \<and>
        last (actions (main lib)) = LogFatal (''failed to start the controller: '' @ e)) \<and>
     (resource_New lib resource_attributes = Ok \<and>
      otlptracegrpc_New lib (exporter_opts ep) = Ok \<and>
      otlpmetricgrpc_New lib (exporter_opts ep) = Ok \<and>
      pusher_Start lib (pusher ep) = Ok \<and>
      meter_new lib numberOfExecInstrument = Ok \<and>
      meter_new lib heapMemoryInstrument = Ok \<and>
      http_ListenAndServe lib '':8888'' = Serves_forever \<longrightarrow>
        exit_code (main lib) = None \<and> binds_port (main lib) \<and>
        last (actions (main lib)) = ListenAndServe '':8888'' Serves_forever) \<and>
     (resource_New lib resource_attributes = Hangs \<or>
      resource_New lib resource_attributes = Ok \<and>
      otlptracegrpc_New lib (exporter_opts ep) = Hangs \<or>
      resource_New lib resource_attributes = Ok \<and>
      otlptracegrpc_New lib (exporter_opts ep) = Ok \<and>
      otlpmetricgrpc_New lib (exporter_opts ep) = Hangs \<or>
      resource_New lib resource_attributes = Ok \<and>
      otlptracegrpc_New lib (exporter_opts ep) = Ok \<and>
      otlpmetricgrpc_New lib (exporter_opts ep) = Ok \<and>
      pusher_Start lib (pusher ep) = Hangs \<longrightarrow>
        exit_code (main lib) = None \<and> \<not> logs_fatal (main lib) \<and> \<not> binds_port (main lib)) \<and>
     (binds_port (main lib) \<longrightarrow>
        resource_New lib resource_attributes = Ok \<and>
        otlptracegrpc_New lib (exporter_opts ep) = Ok \<and>
        otlpmetricgrpc_New lib (exporter_opts ep) = Ok \<and>
        pusher_Start lib (pusher ep) = Ok \<and> \<not> logs_fatal (main lib)) \<and>
     (logs_fatal (main lib) \<longrightarrow> exit_code (main lib) = Some 1 \<and> \<not> binds_port (main lib))"
  unfolding ep_def
  by (rule main_cases [of lib]) (simp_all add: binds_port_def logs_fatal_def)

text \<open>
  One run for each call that returns an error, one for each exporter that does not
  return, and the run in which everything succeeds.
\<close>

theorem startup_failure_is_fatal_witness:
  "exit_code (main (lib_ok\<lparr>resource_New := always (Err ''invalid key'')\<rparr>)) = Some 1 \<and>
   last (actions (main (lib_ok\<lparr>resource_New := always (Err ''invalid key'')\<rparr>))) =
     LogFatal ''failed to create resource: invalid key'' \<and>
   logs_fatal (main (lib_ok\<lparr>resource_New := always (Err ''invalid key'')\<rparr>)) \<and>
   exit_code (main (lib_ok\<lparr>otlptracegrpc_New := always (Err ''refused'')\<rparr>)) = Some 1 \<and>
   \<not> binds_port (main (lib_ok\<lparr>otlptracegrpc_New := always (Err ''refused'')\<rparr>)) \<and>
   exit_code (main (lib_ok\<lparr>otlpmetricgrpc_New := always (Err ''refused'')\<rparr>)) = Some 1 \<and>
   \<not> binds_port (main (lib_ok\<lparr>otlpmetricgrpc_New := always (Err ''refused'')\<rparr>)) \<and>
   exit_code (main (lib_ok\<lparr>pusher_Start := always (Err ''already started'')\<rparr>)) = Some 1 \<and>
   \<not> binds_port (main (lib_ok\<lparr>pusher_Start := always (Err ''already started'')\<rparr>)) \<and>
   exit_code (main (lib_ok\<lparr>otlptracegrpc_New := always Hangs\<rparr>)) = None \<and>
   \<not> logs_fatal (main (lib_ok\<lparr>otlptracegrpc_New := always Hangs\<rparr>)) \<and>
   \<not> binds_port (main (lib_ok\<lparr>otlptracegrpc_New := always Hangs\<rparr>)) \<and>
   exit_code (main (lib_ok\<lparr>otlpmetricgrpc_New := always Hangs\<rparr>)) = None \<and>
   \<not> logs_fatal (main (lib_ok\<lparr>otlpmetricgrpc_New := always Hangs\<rparr>)) \<and>
   exit_code (main lib_ok) = None \<and> binds_port (main lib_ok) \<and> \<not> logs_fatal (main lib_ok)"
proof -
  have fatal: "logs_fatal (main (lib_ok\<lparr>resource_New := always (Err ''invalid key'')\<rparr>))"
    by (simp add: run_defs)
  show ?thesis
    using fatal
      startup_failure_is_fatal [of "lib_ok\<lparr>resource_New := always (Err ''invalid key'')\<rparr>" "''invalid key''"]
      startup_failure_is_fatal [of "lib_ok\<lparr>otlptracegrpc_New := always (Err ''refused'')\<rparr>" "''refused''"]
      startup_failure_is_fatal [of "lib_ok\<lparr>otlpmetricgrpc_New := always (Err ''refused'')\<rparr>" "''refused''"]
      startup_failure_is_fatal [of "lib_ok\<lparr>pusher_Start := always (Err ''already started'')\<rparr>" "''already started''"]
      startup_failure_is_fatal [of "lib_ok\<lparr>otlptracegrpc_New := always Hangs\<rparr>" "''''"]
      startup_failure_is_fatal [of "lib_ok\<lparr>otlpmetricgrpc_New := always Hangs\<rparr>" "''''"]
      startup_failure_is_fatal [of lib_ok "''''"]
    by (simp add: lib_ok_def always_def)
qed

text \<open>
  Claim C4 as stated fails: it has every startup failure end in a fatal log and an
  exit. With an endpoint that cannot be reached the construction of the trace exporter
  does not return, and the run stops there: no fatal log, no exit, the port not bound.
\<close>

theorem unreachable_endpoint_blocks_startup:
  "actions (main (lib_ok\<lparr>otlptracegrpc_New := always Hangs\<rparr>)) =
     [Getenv ''EXPORTER_ENDPOINT'',
      ResourceNew [(''service.name'', ''hello-app''), (''service.version'', ''1.0'')] Ok,
      TraceExporterNew \<lparr>insecure = True, endpoint = '''', dial_block = True\<rparr> Hangs] \<and>
   exit_code (main (lib_ok\<lparr>otlptracegrpc_New := always Hangs\<rparr>)) = None \<and>
   exit_code (main (lib_ok\<lparr>otlptracegrpc_New := always Hangs\<rparr>)) \<noteq> Some 1 \<and>
   \<not> logs_fatal (main (lib_ok\<lparr>otlptracegrpc_New := always Hangs\<rparr>))"
  by (simp add: run_defs const_defs)

text \<open>
  Claim C5: the endpoint of both exporters is the value of EXPORTER_ENDPOINT as
  \<^verbatim>\<open>os.Getenv\<close> returns it, with nothing put in its place when the variable is not
  set: it is then the empty string. Both exporters are built with WithInsecure. main
  goes on only when each exporter has been built with that endpoint, so with the
  variable unset and a gRPC dialler that gets no connection to the empty address the
  startup does not reach the server.
\<close>

theorem endpoint_required_and_insecure:
  "(\<forall>opts r. TraceExporterNew opts r \<in> set (actions (main lib)) \<or>
             MetricExporterNew opts r \<in> set (actions (main lib)) \<longrightarrow>
       insecure opts \<and> endpoint opts = os_Getenv lib ''EXPORTER_ENDPOINT'') \<and>
   (environ lib ''EXPORTER_ENDPOINT'' = None \<longrightarrow> os_Getenv lib ''EXPORTER_ENDPOINT'' = '''') \<and>
   (binds_port (main lib) \<longrightarrow>
      otlptracegrpc_New lib (exporter_opts (os_Getenv lib ''EXPORTER_ENDPOINT'')) = Ok \<and>
      otlpmetricgrpc_New lib (exporter_opts (os_Getenv lib ''EXPORTER_ENDPOINT'')) = Ok) \<and>
   (environ lib ''EXPORTER_ENDPOINT'' = None \<and>
    (\<forall>opts. endpoint opts = '''' \<longrightarrow> otlptracegrpc_New lib opts \<noteq> Ok) \<longrightarrow>
      \<not> binds_port (main lib))"
proof (intro conjI)
  show "\<forall>opts r. TraceExporterNew opts r \<in> set (actions (main lib)) \<or>
             MetricExporterNew opts r \<in> set (actions (main lib)) \<longrightarrow>
       insecure opts \<and> endpoint opts = os_Getenv lib ''EXPORTER_ENDPOINT''"
    by (rule main_cases [of lib]) (auto simp add: exporter_opts_def)
  show "environ lib ''EXPORTER_ENDPOINT'' = None \<longrightarrow> os_Getenv lib ''EXPORTER_ENDPOINT'' = ''''"
    by (simp add: os_Getenv_def)
  show "binds_port (main lib) \<longrightarrow>
      otlptracegrpc_New lib (exporter_opts (os_Getenv lib ''EXPORTER_ENDPOINT'')) = Ok \<and>
      otlpmetricgrpc_New lib (exporter_opts (os_Getenv lib ''EXPORTER_ENDPOINT'')) = Ok"
    by (simp add: binds_port_iff)
  show "environ lib ''EXPORTER_ENDPOINT'' = None \<and>
    (\<forall>opts. endpoint opts = '''' \<longrightarrow> otlptracegrpc_New lib opts \<noteq> Ok) \<longrightarrow>
      \<not> binds_port (main lib)"
  proof (intro impI, elim conjE)
    assume unset: "environ lib ''EXPORTER_ENDPOINT'' = None"
      and no_dial: "\<forall>opts. endpoint opts = '''' \<longrightarrow> otlptracegrpc_New lib opts \<noteq> Ok"
    have "endpoint (exporter_opts (os_Getenv lib ''EXPORTER_ENDPOINT'')) = ''''"
      using unset by (simp add: os_Getenv_def exporter_opts_def)
    with no_dial
    have "otlptracegrpc_New lib (exporter_opts (os_Getenv lib ''EXPORTER_ENDPOINT'')) \<noteq> Ok"
      by blast
    then show "\<not> binds_port (main lib)"
      by (simp add: binds_port_iff)
  qed
qed

text \<open>
  Two runs with a dialler that blocks on the empty address: with the variable unset
  the port is never bound, with it set to collector:4317 both exporters get that
  endpoint and the server is reached.
\<close>

theorem endpoint_required_and_insecure_witness:
  "environ (lib_ok\<lparr>otlptracegrpc_New := dial_needs_address\<rparr>) ''EXPORTER_ENDPOINT'' = None \<and>
   os_Getenv (lib_ok\<lparr>otlptracegrpc_New := dial_needs_address\<rparr>) ''EXPORTER_ENDPOINT'' = '''' \<and>
   \<not> binds_port (main (lib_ok\<lparr>otlptracegrpc_New := dial_needs_address\<rparr>)) \<and>
   TraceExporterNew (exporter_opts ''collector:4317'') Ok \<in>
     set (actions (main (lib_ok\<lparr>environ := [''EXPORTER_ENDPOINT'' \<mapsto> ''collector:4317''],
                                otlptracegrpc_New := dial_needs_address\<rparr>))) \<and>
   insecure (exporter_opts ''collector:4317'') \<and>
   endpoint (exporter_opts ''collector:4317'') =
     os_Getenv (lib_ok\<lparr>environ := [''EXPORTER_ENDPOINT'' \<mapsto> ''collector:4317''],
                       otlptracegrpc_New := dial_needs_address\<rparr>) ''EXPORTER_ENDPOINT'' \<and>
   binds_port (main (lib_ok\<lparr>environ := [''EXPORTER_ENDPOINT'' \<mapsto> ''collector:4317''],
                            otlptracegrpc_New := dial_needs_address\<rparr>))"
proof -
  let ?unset = "lib_ok\<lparr>otlptracegrpc_New := dial_needs_address\<rparr>"
  let ?set = "lib_ok\<lparr>environ := [''EXPORTER_ENDPOINT'' \<mapsto> ''collector:4317''],
                     otlptracegrpc_New := dial_needs_address\<rparr>"
  have unset: "environ ?unset ''EXPORTER_ENDPOINT'' = None"
    by (simp add: lib_ok_def)
  have no_dial: "\<forall>opts. endpoint opts = '''' \<longrightarrow> otlptracegrpc_New ?unset opts \<noteq> Ok"
    by (simp add: lib_ok_def dial_needs_address_def)
  have called: "TraceExporterNew (exporter_opts ''collector:4317'') Ok \<in> set (actions (main ?set))"
    by (simp add: run_defs exporter_opts_def)
  have served: "binds_port (main ?set)"
    by (simp add: run_defs exporter_opts_def)
  note at_unset = endpoint_required_and_insecure [of ?unset]
  note at_set = endpoint_required_and_insecure [of ?set]
  have "os_Getenv ?unset ''EXPORTER_ENDPOINT'' = ''''"
    using at_unset unset by blast
  moreover have "\<not> binds_port (main ?unset)"
    using at_unset unset no_dial by blast
  moreover have "insecure (exporter_opts ''collector:4317'') \<and>
      endpoint (exporter_opts ''collector:4317'') = os_Getenv ?set ''EXPORTER_ENDPOINT''"
    using at_set called by blast
  ultimately show ?thesis
    using unset called served by simp
qed

text \<open>
  Claim C6: once the metric controller has been started, every way the process exits
  runs the deferred Stop: when main returns because ListenAndServe has returned (exit
  code 0), and when \<^verbatim>\<open>metric.Must\<close> panics on an instrument (exit code 2). Stop is then
  the last action of the process and it is called once. Every \<^verbatim>\<open>log.Fatalf\<close> of main
  is before the start of the controller.
\<close>

theorem stop_runs_on_every_exit_after_start:
  "ControllerStart cfg Ok \<in> set (actions (main lib)) \<Longrightarrow> exit_code (main lib) = Some c \<Longrightarrow>
     last (actions (main lib)) = ControllerStop \<and>
     ControllerStart cfg Ok \<in> set (butlast (actions (main lib))) \<and>
     ControllerStop \<notin> set (butlast (actions (main lib))) \<and>
     (c = 0 \<or> c = 2)"
  by (rule main_cases [of lib]) (simp_all add: butlast_append)

text \<open>
  The two exits after the start of the controller: ListenAndServe returns because the
  address is in use, and the creation of an instrument fails.
\<close>

theorem stop_runs_on_every_exit_after_start_witness:
  "ControllerStart (pusher '''') Ok \<in>
     set (actions (main (lib_ok\<lparr>http_ListenAndServe := always (Serve_returns ''address already in use'')\<rparr>))) \<and>
   exit_code (main (lib_ok\<lparr>http_ListenAndServe := always (Serve_returns ''address already in use'')\<rparr>)) = Some 0 \<and>
   last (actions (main (lib_ok\<lparr>http_ListenAndServe := always (Serve_returns ''address already in use'')\<rparr>))) =
     ControllerStop \<and>
   ControllerStart (pusher '''') Ok \<in>
     set (actions (main (lib_ok\<lparr>meter_new := always (Err ''invalid instrument name'')\<rparr>))) \<and>
   exit_code (main (lib_ok\<lparr>meter_new := always (Err ''invalid instrument name'')\<rparr>)) = Some 2 \<and>
   last (actions (main (lib_ok\<lparr>meter_new := always (Err ''invalid instrument name'')\<rparr>))) =
     ControllerStop"
proof -
  let ?returns = "lib_ok\<lparr>http_ListenAndServe := always (Serve_returns ''address already in use'')\<rparr>"
  let ?panics = "lib_ok\<lparr>meter_new := always (Err ''invalid instrument name'')\<rparr>"
  have s1: "ControllerStart (pusher '''') Ok \<in> set (actions (main ?returns))"
    by (simp add: run_defs)
  have x1: "exit_code (main ?returns) = Some 0"
    by (simp add: run_defs)
  have s2: "ControllerStart (pusher '''') Ok \<in> set (actions (main ?panics))"
    by (simp add: run_defs)
  have x2: "exit_code (main ?panics) = Some 2"
    by (simp add: run_defs)
  show ?thesis
    using s1 x1 s2 x2
      stop_runs_on_every_exit_after_start [OF s1 x1]
      stop_runs_on_every_exit_after_start [OF s2 x2]
    by simp
qed




text \<open>
  Claim C9: at every collection tick the callback observes \<^verbatim>\<open>int64(mem.HeapAlloc)\<close>
  of what \<^verbatim>\<open>runtime.ReadMemStats\<close> reports at that moment. The heap of a process lies
  within its address space, so the number of heap bytes the runtime reports is below
  \<open>2 ^ 63\<close>; for every such report the observed value is the reported number of heap
  bytes and is not negative.
\<close>

theorem heap_observation_below_2_63:
  "unat (HeapAlloc mem) < 2 ^ 63 \<Longrightarrow>
     obs_value (heapMemoryCallback mem) = int (unat (HeapAlloc mem)) \<and>
     0 \<le> obs_value (heapMemoryCallback mem) \<and>
     obs_attributes (heapMemoryCallback mem) =
       [(''custom.metric.heap.memory'', ''Reports heap memory utilization.'')]"
  by (simp add: heapMemoryCallback_def sint_of_small heapMemoryName_def heapMemoryDesc_def
      metricPrefix_def)

text \<open>The claim on a heap of 4096 bytes.\<close>

theorem heap_observation_below_2_63_witness:
  "unat (HeapAlloc \<lparr>HeapAlloc = 4096\<rparr>) < 2 ^ 63 \<and>
   obs_value (heapMemoryCallback \<lparr>HeapAlloc = 4096\<rparr>) = 4096 \<and>
   0 \<le> obs_value (heapMemoryCallback \<lparr>HeapAlloc = 4096\<rparr>)"
proof -
  have small: "unat (HeapAlloc \<lparr>HeapAlloc = 4096\<rparr>) < 2 ^ 63"
    by simp
  show ?thesis
    using small heap_observation_below_2_63 [OF small] by simp
qed

end
